theory Spec2Isabelle
  imports Main "HOL-Library.Sublist"
begin

section \<open>Data model\<close>

text \<open>
  Modelled from the spec: the classes \<open>User\<close>, \<open>Item\<close>, \<open>ItemBase\<close> and \<open>ItemUpdate\<close>
  of \<open>src.resources.models\<close>, which the router imports and whose declarations are not
  among the sources. A user has an integer primary key and an admin flag (its other
  fields belong to the authentication subsystem and are never read by the router); an
  item has a generated primary key, a title, a description, a done flag and the key of
  its owner. Field \<open>Item.id\<close> is written \<open>Item_id\<close>, and so on.
\<close>

record user =
  User_id :: int
  User_is_admin :: bool

record item =
  Item_id :: int
  Item_title :: string
  Item_description :: string
  Item_done :: bool
  Item_user_id :: int

text \<open>
  Modelled from the spec: the creation payload \<open>ItemBase\<close> carries all three fields;
  in the patch payload \<open>ItemUpdate\<close> each field is optional, \<open>None\<close> standing for an
  absent (null) field.
\<close>

record item_base =
  ItemBase_title :: string
  ItemBase_description :: string
  ItemBase_done :: bool

record item_update =
  ItemUpdate_title :: "string option"
  ItemUpdate_description :: "string option"
  ItemUpdate_done :: "bool option"

section \<open>The persistence session\<close>

text \<open>
  Modelled from the spec: the persistence session \<open>SessionDep\<close> of
  \<open>src.resources.dependencies\<close>, with the two tables in storage (insertion) order and
  the sequence from which the store generates the primary key of the next item.
\<close>

record session =
  users :: "user list"
  items :: "item list"
  item_seq :: int

text \<open>\<open>session.get(User, user_id)\<close>: the row with that primary key, if any.\<close>

definition session_get_user :: "session \<Rightarrow> int \<Rightarrow> user option" where
  "session_get_user s user_id = find (\<lambda>u. User_id u = user_id) (users s)"

text \<open>
  \<open>session.exec(select(Item).offset(offset).limit(limit)).all()\<close>: skip \<open>offset\<close> rows
  of the table, then keep at most \<open>limit\<close>. The handler declares \<open>offset \<ge> 0\<close> and
  \<open>limit \<ge> 1\<close>; a negative number skips or keeps nothing here.
\<close>

definition select_items_page :: "session \<Rightarrow> int \<Rightarrow> int \<Rightarrow> item list" where
  "select_items_page s offset limit = take (nat limit) (drop (nat offset) (items s))"

text \<open>
  \<open>session.exec(select(Item).where(Item.id == item_id).where(Item.user_id == user_id)).first()\<close>:
  the first row that satisfies both conditions.
\<close>

definition select_item :: "session \<Rightarrow> int \<Rightarrow> int \<Rightarrow> item option" where
  "select_item s item_id user_id =
     find (\<lambda>r. Item_id r = item_id \<and> Item_user_id r = user_id) (items s)"

text \<open>
  Modelled from the spec: the one-to-many relationship \<open>user.items\<close>, the rows of the
  item table whose foreign key is the user's primary key, in storage order.
\<close>

definition user_items :: "session \<Rightarrow> user \<Rightarrow> item list" where
  "user_items s u = filter (\<lambda>r. Item_user_id r = User_id u) (items s)"

text \<open>
  \<open>session.add(new_item); session.commit(); session.refresh(new_item)\<close> for a new
  object: the row is appended with the next key of the sequence, and the refreshed
  object is that row.
\<close>

definition session_add_new :: "session \<Rightarrow> string \<Rightarrow> string \<Rightarrow> bool \<Rightarrow> int \<Rightarrow> item \<times> session" where
  "session_add_new s title description done user_id =
     (let new_item = \<lparr>Item_id = item_seq s, Item_title = title,
                      Item_description = description, Item_done = done,
                      Item_user_id = user_id\<rparr>
      in (new_item, s\<lparr>items := items s @ [new_item], item_seq := item_seq s + 1\<rparr>))"

text \<open>
  \<open>session.add(item_db); session.commit(); session.refresh(item_db)\<close> for an object
  that was loaded from a row and whose attributes the handler may have assigned since:
  every attribute whose value is no longer the loaded one is written, whichever column
  it is, to the row with the primary key the object was loaded with. \<open>flush_changes\<close>
  is that write on one row.
\<close>

definition flush_changes :: "item \<Rightarrow> item \<Rightarrow> item \<Rightarrow> item" where
  "flush_changes loaded item_db r =
     r\<lparr>Item_id := (if Item_id item_db = Item_id loaded then Item_id r else Item_id item_db),
       Item_title := (if Item_title item_db = Item_title loaded then Item_title r
                      else Item_title item_db),
       Item_description := (if Item_description item_db = Item_description loaded
                            then Item_description r else Item_description item_db),
       Item_done := (if Item_done item_db = Item_done loaded then Item_done r
                     else Item_done item_db),
       Item_user_id := (if Item_user_id item_db = Item_user_id loaded then Item_user_id r
                        else Item_user_id item_db)\<rparr>"

definition session_update :: "session \<Rightarrow> item \<Rightarrow> item \<Rightarrow> session" where
  "session_update s loaded item_db =
     s\<lparr>items := map (\<lambda>r. if Item_id r = Item_id loaded then flush_changes loaded item_db r
                          else r) (items s)\<rparr>"

text \<open>\<open>session.delete(item); session.commit()\<close>: the row with the object's primary key is removed.\<close>

definition session_delete :: "session \<Rightarrow> item \<Rightarrow> session" where
  "session_delete s item_db = s\<lparr>items := filter (\<lambda>r. Item_id r \<noteq> Item_id item_db) (items s)\<rparr>"

section \<open>Responses and errors\<close>

text \<open>
  The \<open>detail\<close> of an \<open>HTTPException\<close> is one of three messages: the missing-rights
  message, \<open>User with id {user_id} not found!\<close>, and
  \<open>Item with id {item_id} for user with id {user_id} not found!\<close>.
\<close>

datatype detail = No_rights | User_not_found int | Item_not_found int int

datatype http_exception = HTTPException int detail

text \<open>
  The content of a \<open>JSONResponse\<close> always has status \<open>Success\<close>; it carries a message
  and, depending on the handler, the dump of an item, of a list of items, or nothing
  more. A plain \<open>Response\<close> has no body.
\<close>

datatype content =
  Content_item string item
  | Content_items string "item list"
  | Content_message string

datatype response = JSONResponse int content | Response int

type_synonym outcome = "http_exception + response"

fun status_code :: "outcome \<Rightarrow> int" where
  "status_code (Inl (HTTPException c d)) = c"
| "status_code (Inr (JSONResponse c b)) = c"
| "status_code (Inr (Response c)) = c"

abbreviation HTTP_200_OK :: int where "HTTP_200_OK \<equiv> 200"
abbreviation HTTP_201_CREATED :: int where "HTTP_201_CREATED \<equiv> 201"
abbreviation HTTP_204_NO_CONTENT :: int where "HTTP_204_NO_CONTENT \<equiv> 204"
abbreviation HTTP_403_FORBIDDEN :: int where "HTTP_403_FORBIDDEN \<equiv> 403"
abbreviation HTTP_404_NOT_FOUND :: int where "HTTP_404_NOT_FOUND \<equiv> 404"

section \<open>Python slicing\<close>

text \<open>
  \<open>xs[start:stop]\<close>: a negative bound counts from the end, both bounds are clipped
  to the list, and the slice is empty when the bounds cross.
\<close>

definition py_slice :: "'a list \<Rightarrow> int \<Rightarrow> int \<Rightarrow> 'a list" where
  "py_slice xs start stop =
     (let n = int (length xs);
          lo = (if start < 0 then max (start + n) 0 else min start n);
          hi = (if stop < 0 then max (stop + n) 0 else min stop n)
      in take (nat (hi - lo)) (drop (nat lo) xs))"

section \<open>The handlers of the router\<close>

text \<open>
  Each handler takes the arguments of the Python function and returns what it raises
  (\<open>Inl\<close>) or returns (\<open>Inr\<close>), together with the session as the request leaves it.
  \<open>ItemBase.model_validate(item)\<close> and \<open>ItemUpdate.model_validate(item)\<close> receive an
  instance of the class itself, which they accept, so they are not a branch.
\<close>

definition create_item :: "int \<Rightarrow> user \<Rightarrow> session \<Rightarrow> item_base \<Rightarrow> outcome \<times> session" where
  "create_item user_id current_user session item =
     (if \<not> User_is_admin current_user \<and> User_id current_user \<noteq> user_id
      then (Inl (HTTPException HTTP_403_FORBIDDEN No_rights), session)
      else case session_get_user session user_id of
        None \<Rightarrow> (Inl (HTTPException HTTP_404_NOT_FOUND (User_not_found user_id)), session)
      | Some user_db \<Rightarrow>
          (case session_add_new session (ItemBase_title item) (ItemBase_description item)
                  (ItemBase_done item) (User_id user_db) of
             (new_item, session') \<Rightarrow>
               (Inr (JSONResponse HTTP_201_CREATED
                       (Content_item ''Item created successfully!'' new_item)), session')))"

definition get_items :: "user \<Rightarrow> session \<Rightarrow> int \<Rightarrow> int \<Rightarrow> outcome \<times> session" where
  "get_items current_user session offset limit =
     (if \<not> User_is_admin current_user
      then (Inl (HTTPException HTTP_403_FORBIDDEN No_rights), session)
      else let items = select_items_page session offset limit
           in if items = [] then (Inr (Response HTTP_204_NO_CONTENT), session)
              else (Inr (JSONResponse HTTP_200_OK
                           (Content_items ''Items retrieved successfully!'' items)), session))"

definition get_user_items :: "int \<Rightarrow> user \<Rightarrow> session \<Rightarrow> int \<Rightarrow> int \<Rightarrow> outcome \<times> session" where
  "get_user_items user_id current_user session offset limit =
     (if \<not> User_is_admin current_user \<and> User_id current_user \<noteq> user_id
      then (Inl (HTTPException HTTP_403_FORBIDDEN No_rights), session)
      else case session_get_user session user_id of
        None \<Rightarrow> (Inl (HTTPException HTTP_404_NOT_FOUND (User_not_found user_id)), session)
      | Some user \<Rightarrow>
          if user_items session user = [] then (Inr (Response HTTP_204_NO_CONTENT), session)
          else (Inr (JSONResponse HTTP_200_OK
                       (Content_items ''Items retrieved successfully!''
                          (py_slice (user_items session user) offset (offset + limit)))),
                session))"

definition get_item :: "int \<Rightarrow> int \<Rightarrow> user \<Rightarrow> session \<Rightarrow> outcome \<times> session" where
  "get_item user_id item_id current_user session =
     (if \<not> User_is_admin current_user \<and> User_id current_user \<noteq> user_id
      then (Inl (HTTPException HTTP_403_FORBIDDEN No_rights), session)
      else case session_get_user session user_id of
        None \<Rightarrow> (Inl (HTTPException HTTP_404_NOT_FOUND (User_not_found user_id)), session)
      | Some user \<Rightarrow>
          (case select_item session item_id user_id of
             None \<Rightarrow> (Inl (HTTPException HTTP_404_NOT_FOUND (Item_not_found item_id user_id)),
                      session)
           | Some item \<Rightarrow>
               (Inr (JSONResponse HTTP_200_OK
                       (Content_item ''Item retrieved successfully!'' item)), session)))"

text \<open>
  The merge of \<open>patch_item\<close>: \<open>if item.title\<close> and \<open>if item.description\<close> test
  truthiness (neither \<open>None\<close> nor the empty string), \<open>if item.done is not None\<close> tests
  presence.
\<close>

definition merge_update :: "item \<Rightarrow> item_update \<Rightarrow> item" where
  "merge_update item_db item =
     (let item_db = (case ItemUpdate_title item of
                       Some t \<Rightarrow> if t \<noteq> [] then item_db\<lparr>Item_title := t\<rparr> else item_db
                     | None \<Rightarrow> item_db);
          item_db = (case ItemUpdate_description item of
                       Some d \<Rightarrow> if d \<noteq> [] then item_db\<lparr>Item_description := d\<rparr> else item_db
                     | None \<Rightarrow> item_db);
          item_db = (case ItemUpdate_done item of
                       Some b \<Rightarrow> item_db\<lparr>Item_done := b\<rparr>
                     | None \<Rightarrow> item_db)
      in item_db)"

definition patch_item :: "int \<Rightarrow> int \<Rightarrow> session \<Rightarrow> user \<Rightarrow> item_update \<Rightarrow> outcome \<times> session" where
  "patch_item user_id item_id session current_user item =
     (if \<not> User_is_admin current_user \<and> User_id current_user \<noteq> user_id
      then (Inl (HTTPException HTTP_403_FORBIDDEN No_rights), session)
      else case session_get_user session user_id of
        None \<Rightarrow> (Inl (HTTPException HTTP_404_NOT_FOUND (User_not_found user_id)), session)
      | Some user \<Rightarrow>
          (case select_item session item_id user_id of
             None \<Rightarrow> (Inl (HTTPException HTTP_404_NOT_FOUND (Item_not_found item_id user_id)),
                      session)
           | Some item_db \<Rightarrow>
               (let item_db' = merge_update item_db item
                in (Inr (JSONResponse HTTP_200_OK
                           (Content_item ''Item patched successfully!'' item_db')),
                    session_update session item_db item_db'))))"

definition delete_item :: "int \<Rightarrow> int \<Rightarrow> user \<Rightarrow> session \<Rightarrow> outcome \<times> session" where
  "delete_item user_id item_id current_user session =
     (if \<not> User_is_admin current_user \<and> User_id current_user \<noteq> user_id
      then (Inl (HTTPException HTTP_403_FORBIDDEN No_rights), session)
      else case session_get_user session user_id of
        None \<Rightarrow> (Inl (HTTPException HTTP_404_NOT_FOUND (User_not_found user_id)), session)
      | Some user \<Rightarrow>
          (case select_item session item_id user_id of
             None \<Rightarrow> (Inl (HTTPException HTTP_404_NOT_FOUND (Item_not_found item_id user_id)),
                      session)
           | Some item \<Rightarrow>
               (Inr (JSONResponse HTTP_200_OK (Content_message ''Item deleted successfully!'')),
                session_delete session item)))"

section \<open>Integrity of the item table\<close>

text \<open>
  Two facts hold of every session the store can be in: \<open>Item.id\<close> is a primary key, so
  no two rows share it, and every key in the table was drawn from the sequence, so the
  sequence is ahead of all of them.
\<close>

definition pk_unique :: "session \<Rightarrow> bool" where
  "pk_unique s = distinct (map Item_id (items s))"

definition seq_ahead :: "session \<Rightarrow> bool" where
  "seq_ahead s = list_all (\<lambda>r. Item_id r < item_seq s) (items s)"

section \<open>Sample data\<close>

text \<open>
  An admin, two ordinary users, the payload of the spec's example, and a session in
  which user 5 owns the only item.
\<close>

definition admin_1 :: user where
  "admin_1 = \<lparr>User_id = 1, User_is_admin = True\<rparr>"

definition user_5 :: user where
  "user_5 = \<lparr>User_id = 5, User_is_admin = False\<rparr>"

definition user_7 :: user where
  "user_7 = \<lparr>User_id = 7, User_is_admin = False\<rparr>"

definition buy_milk :: item_base where
  "buy_milk = \<lparr>ItemBase_title = ''Buy milk'', ItemBase_description = ''2%'',
                ItemBase_done = False\<rparr>"

definition walk_dog :: item where
  "walk_dog = \<lparr>Item_id = 1, Item_title = ''Walk dog'', Item_description = ''twice'',
                Item_done = True, Item_user_id = 5\<rparr>"

definition sample_session :: session where
  "sample_session = \<lparr>users = [admin_1, user_5, user_7], items = [walk_dog], item_seq = 2\<rparr>"

definition clear_title :: item_update where
  "clear_title = \<lparr>ItemUpdate_title = Some [], ItemUpdate_description = None,
                   ItemUpdate_done = Some False\<rparr>"

lemmas sample_defs =
  admin_1_def user_5_def user_7_def buy_milk_def walk_dog_def sample_session_def clear_title_def

section \<open>Lookups in a table\<close>

lemma find_map_preserve:
  "(\<And>x. P (g x) = P x) \<Longrightarrow> find P (map g xs) = map_option g (find P xs)"
  by (induction xs) simp_all

lemma find_append:
  "find P (xs @ ys) = (case find P xs of None \<Rightarrow> find P ys | Some x \<Rightarrow> Some x)"
  by (induction xs) simp_all

lemma find_Some_holds: "find P xs = Some x \<Longrightarrow> P x \<and> x \<in> set xs"
  by (induction xs) (auto split: if_splits)

lemma session_get_user_id: "session_get_user s user_id = Some u \<Longrightarrow> User_id u = user_id"
  unfolding session_get_user_def by (drule find_Some_holds) simp

lemma select_item_keys:
  "select_item s item_id user_id = Some r \<Longrightarrow>
     Item_id r = item_id \<and> Item_user_id r = user_id \<and> r \<in> set (items s)"
  unfolding select_item_def by (drule find_Some_holds) simp

section \<open>Slices and pages\<close>

lemma py_slice_page:
  assumes "0 \<le> offset" and "0 \<le> limit"
  shows "py_slice xs offset (offset + limit) = take (nat limit) (drop (nat offset) xs)"
proof (cases "offset \<le> int (length xs)")
  case True
  with assms show ?thesis
    by (auto simp: py_slice_def Let_def min_def nat_le_iff intro!: arg_cong2[where f=take])
next
  case False
  with assms show ?thesis
    by (simp add: py_slice_def Let_def min_def)
qed

section \<open>The merge keeps the keys\<close>

lemma merge_update_keys:
  "Item_id (merge_update r upd) = Item_id r \<and>
   Item_user_id (merge_update r upd) = Item_user_id r"
  by (simp add: merge_update_def Let_def split: option.splits)

section \<open>Writing a loaded object back\<close>

lemma flush_changes_loaded: "flush_changes loaded item_db loaded = item_db"
  by (simp add: flush_changes_def)

lemma flush_changes_id:
  "Item_id item_db = Item_id loaded \<Longrightarrow> Item_id (flush_changes loaded item_db r) = Item_id r"
  by (simp add: flush_changes_def)

lemma flush_changes_owner:
  "Item_user_id item_db = Item_user_id loaded \<Longrightarrow>
     Item_user_id (flush_changes loaded item_db r) = Item_user_id r"
  by (simp add: flush_changes_def)

section \<open>The handlers keep the table intact\<close>

lemma create_item_integrity:
  assumes "pk_unique session" and "seq_ahead session"
  shows "pk_unique (snd (create_item user_id current_user session item))
       \<and> seq_ahead (snd (create_item user_id current_user session item))"
proof -
  have fresh: "item_seq session \<notin> Item_id ` set (items session)"
    using assms(2) by (auto simp: seq_ahead_def list_all_iff)
  have later: "list_all (\<lambda>r. Item_id r < item_seq session + 1) (items session)"
    using assms(2) by (auto simp: seq_ahead_def list_all_iff)
  show ?thesis
    using assms fresh later
    by (simp add: create_item_def session_add_new_def Let_def pk_unique_def seq_ahead_def
        split: option.splits)
qed

lemma session_update_ids:
  assumes "Item_id item_db = Item_id loaded"
  shows "map Item_id (items (session_update session loaded item_db))
           = map Item_id (items session)"
  using assms by (simp add: session_update_def flush_changes_id)

lemma session_update_owners:
  assumes "Item_user_id item_db = Item_user_id loaded"
  shows "map Item_user_id (items (session_update session loaded item_db))
           = map Item_user_id (items session)"
  using assms by (simp add: session_update_def flush_changes_owner)

lemma patch_item_session:
  "snd (patch_item user_id item_id session current_user item) = session
   \<or> (\<exists>item_db. select_item session item_id user_id = Some item_db
         \<and> snd (patch_item user_id item_id session current_user item)
             = session_update session item_db (merge_update item_db item))"
  by (simp add: patch_item_def Let_def split: option.splits)

lemma patch_item_integrity:
  assumes "pk_unique session" and "seq_ahead session"
  shows "pk_unique (snd (patch_item user_id item_id session current_user item))
       \<and> seq_ahead (snd (patch_item user_id item_id session current_user item))"
proof -
  have ids: "map Item_id (items (session_update session r (merge_update r item)))
               = map Item_id (items session)" for r
    by (rule session_update_ids) (simp add: merge_update_keys)
  have "seq_ahead (session_update session r (merge_update r item))" for r
  proof -
    have "item_seq (session_update session r (merge_update r item)) = item_seq session"
      by (simp add: session_update_def)
    moreover have "set (map Item_id (items (session_update session r (merge_update r item))))
                     = set (map Item_id (items session))"
      by (simp only: ids)
    ultimately show ?thesis
      using assms(2) unfolding seq_ahead_def list_all_iff by (metis (no_types, lifting) image_iff list.set_map)
  qed
  moreover have "pk_unique (session_update session r (merge_update r item))" for r
    using assms(1) by (simp add: pk_unique_def ids)
  ultimately show ?thesis
    using assms patch_item_session [of user_id item_id session current_user item] by auto
qed

lemma delete_item_integrity:
  assumes "pk_unique session" and "seq_ahead session"
  shows "pk_unique (snd (delete_item user_id item_id current_user session))
       \<and> seq_ahead (snd (delete_item user_id item_id current_user session))"
proof -
  have "seq_ahead (session_delete session r)" for r
    using assms(2) by (auto simp: seq_ahead_def session_delete_def list_all_iff)
  moreover have "pk_unique (session_delete session r)" for r
    using assms(1) by (simp add: pk_unique_def session_delete_def distinct_map_filter)
  ultimately show ?thesis
    using assms by (simp add: delete_item_def split: option.splits)
qed

lemma empty_table_integrity:
  "pk_unique \<lparr>users = us, items = [], item_seq = n\<rparr> \<and> seq_ahead \<lparr>users = us, items = [], item_seq = n\<rparr>"
  by (simp add: pk_unique_def seq_ahead_def)

section \<open>Lookups after a write\<close>

lemma seq_ahead_fresh:
  assumes "seq_ahead session"
  shows "find (\<lambda>r. Item_id r = item_seq session \<and> Item_user_id r = user_id) (items session) = None"
  using assms by (auto simp: seq_ahead_def find_None_iff list_all_iff)

lemma select_item_other_owner:
  assumes "pk_unique session" and "r \<in> set (items session)"
    and "Item_id r = item_id" and "Item_user_id r \<noteq> user_id"
  shows "select_item session item_id user_id = None"
proof -
  have "\<not> (Item_id x = item_id \<and> Item_user_id x = user_id)" if "x \<in> set (items session)" for x
  proof
    assume h: "Item_id x = item_id \<and> Item_user_id x = user_id"
    have "inj_on Item_id (set (items session))"
      using assms(1) by (simp add: pk_unique_def distinct_map)
    with that assms(2,3) h have "x = r" by (auto dest: inj_onD)
    with h assms(4) show False by simp
  qed
  then show ?thesis
    by (auto simp: select_item_def find_None_iff)
qed

section \<open>The claims\<close>

text \<open>
  Claim C1. For each of the five handlers scoped to a \<open>user_id\<close>, and every caller,
  the request is refused with status 403 exactly when the caller is neither an admin nor
  the user \<open>user_id\<close>; so it passes the ownership-or-admin check exactly when the caller
  is an admin or the owner.
\<close>

theorem forbidden_iff_neither_admin_nor_owner:
  "(status_code (fst (create_item user_id current_user session item)) = HTTP_403_FORBIDDEN)
     = (\<not> (User_is_admin current_user \<or> User_id current_user = user_id))
   \<and> (status_code (fst (get_user_items user_id current_user session offset limit)) = HTTP_403_FORBIDDEN)
     = (\<not> (User_is_admin current_user \<or> User_id current_user = user_id))
   \<and> (status_code (fst (get_item user_id item_id current_user session)) = HTTP_403_FORBIDDEN)
     = (\<not> (User_is_admin current_user \<or> User_id current_user = user_id))
   \<and> (status_code (fst (patch_item user_id item_id session current_user upd)) = HTTP_403_FORBIDDEN)
     = (\<not> (User_is_admin current_user \<or> User_id current_user = user_id))
   \<and> (status_code (fst (delete_item user_id item_id current_user session)) = HTTP_403_FORBIDDEN)
     = (\<not> (User_is_admin current_user \<or> User_id current_user = user_id))"
proof (intro conjI)
  show "(status_code (fst (create_item user_id current_user session item)) = HTTP_403_FORBIDDEN)
     = (\<not> (User_is_admin current_user \<or> User_id current_user = user_id))"
    by (simp add: create_item_def session_add_new_def Let_def split: option.splits)
  show "(status_code (fst (get_user_items user_id current_user session offset limit)) = HTTP_403_FORBIDDEN)
     = (\<not> (User_is_admin current_user \<or> User_id current_user = user_id))"
    by (simp add: get_user_items_def split: option.splits)
  show "(status_code (fst (get_item user_id item_id current_user session)) = HTTP_403_FORBIDDEN)
     = (\<not> (User_is_admin current_user \<or> User_id current_user = user_id))"
    by (simp add: get_item_def split: option.splits)
  show "(status_code (fst (patch_item user_id item_id session current_user upd)) = HTTP_403_FORBIDDEN)
     = (\<not> (User_is_admin current_user \<or> User_id current_user = user_id))"
    by (simp add: patch_item_def Let_def split: option.splits)
  show "(status_code (fst (delete_item user_id item_id current_user session)) = HTTP_403_FORBIDDEN)
     = (\<not> (User_is_admin current_user \<or> User_id current_user = user_id))"
    by (simp add: delete_item_def split: option.splits)
qed

text \<open>The statement at the sample data.\<close>

theorem forbidden_iff_neither_admin_nor_owner_witness:
  "status_code (fst (create_item 5 user_7 sample_session buy_milk)) = HTTP_403_FORBIDDEN
   \<and> status_code (fst (create_item 5 user_5 sample_session buy_milk)) \<noteq> HTTP_403_FORBIDDEN
   \<and> status_code (fst (delete_item 5 1 admin_1 sample_session)) \<noteq> HTTP_403_FORBIDDEN"
  using forbidden_iff_neither_admin_nor_owner [of 5 user_7 sample_session buy_milk]
    forbidden_iff_neither_admin_nor_owner [of 5 user_5 sample_session buy_milk]
    forbidden_iff_neither_admin_nor_owner [of 5 admin_1 sample_session _ _ _ 1]
  by (simp add: sample_defs)

text \<open>
  Claim C2, as the code has it. For an admin caller, \<open>offset \<ge> 0\<close> and \<open>limit \<ge> 1\<close>,
  \<open>get_items\<close> answers 204 exactly when the page is empty, that is when the table has at
  most \<open>offset\<close> rows; otherwise it answers 200 with the page, \<open>offset\<close> rows skipped and
  at most \<open>limit\<close> kept, in storage order.
\<close>

theorem get_items_no_content_iff_page_empty:
  assumes "User_is_admin current_user" and "0 \<le> offset" and "1 \<le> limit"
  shows "((get_items current_user session offset limit
             = (Inr (Response HTTP_204_NO_CONTENT), session))
           = (int (length (items session)) \<le> offset))
       \<and> (offset < int (length (items session)) \<longrightarrow>
            get_items current_user session offset limit
              = (Inr (JSONResponse HTTP_200_OK
                       (Content_items ''Items retrieved successfully!''
                          (take (nat limit) (drop (nat offset) (items session))))), session))"
proof -
  have "(select_items_page session offset limit = []) = (int (length (items session)) \<le> offset)"
    using assms by (auto simp: select_items_page_def)
  then show ?thesis
    using assms by (auto simp: get_items_def Let_def select_items_page_def)
qed

text \<open>The statement at the sample data.\<close>

theorem get_items_no_content_iff_page_empty_witness:
  "User_is_admin admin_1 \<and> (0::int) \<le> 0 \<and> (1::int) \<le> 10
   \<and> get_items admin_1 sample_session 0 10
       = (Inr (JSONResponse HTTP_200_OK
                (Content_items ''Items retrieved successfully!'' [walk_dog])), sample_session)
   \<and> get_items admin_1 sample_session 1 10 = (Inr (Response HTTP_204_NO_CONTENT), sample_session)"
proof -
  have a: "User_is_admin admin_1" by (simp add: admin_1_def)
  have one: "items sample_session = [walk_dog]" by (simp add: sample_session_def)
  show ?thesis
    using a get_items_no_content_iff_page_empty [OF a, of 0 10 sample_session] get_items_no_content_iff_page_empty [OF a, of 1 10 sample_session]
    by (simp add: one)
qed

text \<open>
  Claim C2 as the spec words it, 204 exactly when the table has no row, fails: with one
  row in the table and \<open>offset = 1\<close> the page is empty and the answer is 204.
\<close>

theorem get_items_no_content_counterexample:
  "User_is_admin admin_1 \<and> (0::int) \<le> 1 \<and> (1::int) \<le> 10
   \<and> get_items admin_1 sample_session 1 10 = (Inr (Response HTTP_204_NO_CONTENT), sample_session)
   \<and> items sample_session \<noteq> []"
  by (simp add: get_items_def select_items_page_def sample_defs)

text \<open>
  Claim C3. For an authorized caller and an existing user, \<open>offset \<ge> 0\<close> and
  \<open>limit \<ge> 1\<close>, \<open>get_user_items\<close> answers 204 exactly when the user owns no item at all,
  whatever the offset and the limit; when the user owns items it answers 200 with the
  slice of them, which is the empty list when \<open>offset\<close> is at or beyond their number.
\<close>

theorem get_user_items_no_content_iff_owns_none:
  assumes "User_is_admin current_user \<or> User_id current_user = user_id"
    and "session_get_user session user_id = Some user"
    and "0 \<le> offset" and "1 \<le> limit"
  shows "((get_user_items user_id current_user session offset limit
             = (Inr (Response HTTP_204_NO_CONTENT), session))
           = (filter (\<lambda>r. Item_user_id r = user_id) (items session) = []))
       \<and> (filter (\<lambda>r. Item_user_id r = user_id) (items session) \<noteq> [] \<longrightarrow>
            get_user_items user_id current_user session offset limit
              = (Inr (JSONResponse HTTP_200_OK
                       (Content_items ''Items retrieved successfully!''
                          (take (nat limit) (drop (nat offset)
                             (filter (\<lambda>r. Item_user_id r = user_id) (items session)))))),
                 session))
       \<and> (filter (\<lambda>r. Item_user_id r = user_id) (items session) \<noteq> [] \<longrightarrow>
            int (length (filter (\<lambda>r. Item_user_id r = user_id) (items session))) \<le> offset \<longrightarrow>
            get_user_items user_id current_user session offset limit
              = (Inr (JSONResponse HTTP_200_OK
                       (Content_items ''Items retrieved successfully!'' [])), session))"
proof -
  have owned: "user_items session user = filter (\<lambda>r. Item_user_id r = user_id) (items session)"
    using session_get_user_id [OF assms(2)] by (simp add: user_items_def)
  have page: "py_slice xs offset (offset + limit) = take (nat limit) (drop (nat offset) xs)" for xs :: "item list"
    using assms(3,4) by (simp add: py_slice_page)
  show ?thesis
    using assms by (auto simp: get_user_items_def owned page)
qed

text \<open>The statement at the sample data.\<close>

theorem get_user_items_no_content_iff_owns_none_witness:
  "(User_is_admin user_5 \<or> User_id user_5 = 5)
   \<and> session_get_user sample_session 5 = Some user_5 \<and> (0::int) \<le> 1 \<and> (1::int) \<le> 10
   \<and> get_user_items 5 user_5 sample_session 1 10
       = (Inr (JSONResponse HTTP_200_OK
                (Content_items ''Items retrieved successfully!'' [])), sample_session)
   \<and> get_user_items 7 user_7 sample_session 0 10
       = (Inr (Response HTTP_204_NO_CONTENT), sample_session)"
proof -
  have a5: "User_is_admin user_5 \<or> User_id user_5 = 5" by (simp add: user_5_def)
  have a7: "User_is_admin user_7 \<or> User_id user_7 = 7" by (simp add: user_7_def)
  have u5: "session_get_user sample_session 5 = Some user_5"
    by (simp add: session_get_user_def sample_defs)
  have u7: "session_get_user sample_session 7 = Some user_7"
    by (simp add: session_get_user_def sample_defs)
  have rows: "items sample_session = [walk_dog]" "Item_user_id walk_dog = 5"
    by (simp_all add: sample_defs)
  show ?thesis
    using a5 u5 get_user_items_no_content_iff_owns_none [OF a5 u5, of 1 10] get_user_items_no_content_iff_owns_none [OF a7 u7, of 0 10]
    by (simp add: rows)
qed

text \<open>
  Claim C4. An authorized \<open>patch_item\<close> on an existing item of an existing user
  succeeds, and the item it returns is the one now stored: its title is the payload's
  only when that is present and not empty, likewise its description, and its done flag
  is the payload's whenever that is present, \<open>False\<close> included.
\<close>

theorem patch_item_merge_policy:
  assumes "User_is_admin current_user \<or> User_id current_user = user_id"
    and "session_get_user session user_id = Some user"
    and "select_item session item_id user_id = Some item_db"
  shows "\<exists>patched session'.
           patch_item user_id item_id session current_user item
             = (Inr (JSONResponse HTTP_200_OK
                      (Content_item ''Item patched successfully!'' patched)), session')
         \<and> select_item session' item_id user_id = Some patched
         \<and> Item_title patched =
             (case ItemUpdate_title item of
                None \<Rightarrow> Item_title item_db
              | Some t \<Rightarrow> if t = [] then Item_title item_db else t)
         \<and> Item_description patched =
             (case ItemUpdate_description item of
                None \<Rightarrow> Item_description item_db
              | Some d \<Rightarrow> if d = [] then Item_description item_db else d)
         \<and> Item_done patched =
             (case ItemUpdate_done item of None \<Rightarrow> Item_done item_db | Some b \<Rightarrow> b)"
proof -
  let ?m = "merge_update item_db item"
  let ?g = "\<lambda>r. if Item_id r = Item_id item_db then flush_changes item_db ?m r else r"
  have keys: "Item_id item_db = item_id" "Item_user_id item_db = user_id"
    using select_item_keys [OF assms(3)] by simp_all
  have run: "patch_item user_id item_id session current_user item
               = (Inr (JSONResponse HTTP_200_OK
                        (Content_item ''Item patched successfully!'' ?m)),
                  session_update session item_db ?m)"
    using assms by (auto simp: patch_item_def Let_def)
  have "find (\<lambda>r. Item_id r = item_id \<and> Item_user_id r = user_id) (map ?g (items session))
          = map_option ?g (find (\<lambda>r. Item_id r = item_id \<and> Item_user_id r = user_id) (items session))"
    by (rule find_map_preserve)
      (simp add: flush_changes_id flush_changes_owner merge_update_keys)
  also have "\<dots> = Some (?g item_db)"
    using assms(3) by (simp add: select_item_def)
  also have "?g item_db = ?m"
    by (simp add: flush_changes_loaded)
  finally have stored: "select_item (session_update session item_db ?m) item_id user_id = Some ?m"
    by (simp add: select_item_def session_update_def)
  have t: "Item_title ?m = (case ItemUpdate_title item of
                None \<Rightarrow> Item_title item_db
              | Some t \<Rightarrow> if t = [] then Item_title item_db else t)"
    by (simp add: merge_update_def Let_def split: option.splits)
  have d: "Item_description ?m = (case ItemUpdate_description item of
                None \<Rightarrow> Item_description item_db
              | Some d \<Rightarrow> if d = [] then Item_description item_db else d)"
    by (simp add: merge_update_def Let_def split: option.splits)
  have b: "Item_done ?m = (case ItemUpdate_done item of None \<Rightarrow> Item_done item_db | Some b \<Rightarrow> b)"
    by (simp add: merge_update_def Let_def split: option.splits)
  from run stored t d b show ?thesis by blast
qed

text \<open>The statement at the sample data.\<close>

theorem patch_item_merge_policy_witness:
  "(User_is_admin user_5 \<or> User_id user_5 = 5)
   \<and> session_get_user sample_session 5 = Some user_5
   \<and> select_item sample_session 1 5 = Some walk_dog
   \<and> (\<exists>patched session'.
         patch_item 5 1 sample_session user_5 clear_title
           = (Inr (JSONResponse HTTP_200_OK
                    (Content_item ''Item patched successfully!'' patched)), session')
       \<and> select_item session' 1 5 = Some patched
       \<and> Item_title patched = ''Walk dog''
       \<and> Item_description patched = ''twice''
       \<and> Item_done patched = False)"
proof -
  have a5: "User_is_admin user_5 \<or> User_id user_5 = 5" by (simp add: user_5_def)
  have u5: "session_get_user sample_session 5 = Some user_5"
    by (simp add: session_get_user_def sample_defs)
  have sel: "select_item sample_session 1 5 = Some walk_dog"
    by (simp add: select_item_def sample_defs)
  have old: "Item_title walk_dog = ''Walk dog''" "Item_description walk_dog = ''twice''"
    by (simp_all add: walk_dog_def)
  have upd: "ItemUpdate_title clear_title = Some []" "ItemUpdate_description clear_title = None"
    "ItemUpdate_done clear_title = Some False"
    by (simp_all add: clear_title_def)
  show ?thesis
    using a5 u5 sel patch_item_merge_policy [OF a5 u5 sel, of clear_title]
    by (simp add: old upd)
qed

text \<open>
  Claim C5. For an authorized caller, when the row with key \<open>item_id\<close> belongs to
  another user than \<open>user_id\<close>, \<open>get_item\<close>, \<open>patch_item\<close> and \<open>delete_item\<close> raise 404
  and leave the session as it was; the detail names the item and the user when the user
  exists, and the user when it does not.
\<close>

theorem item_of_other_user_not_found:
  assumes "User_is_admin current_user \<or> User_id current_user = user_id"
    and "pk_unique session" and "r \<in> set (items session)"
    and "Item_id r = item_id" and "Item_user_id r \<noteq> user_id"
  shows "get_item user_id item_id current_user session
           = (Inl (HTTPException HTTP_404_NOT_FOUND
                     (case session_get_user session user_id of
                        None \<Rightarrow> User_not_found user_id
                      | Some u \<Rightarrow> Item_not_found item_id user_id)), session)
       \<and> patch_item user_id item_id session current_user item
           = (Inl (HTTPException HTTP_404_NOT_FOUND
                     (case session_get_user session user_id of
                        None \<Rightarrow> User_not_found user_id
                      | Some u \<Rightarrow> Item_not_found item_id user_id)), session)
       \<and> delete_item user_id item_id current_user session
           = (Inl (HTTPException HTTP_404_NOT_FOUND
                     (case session_get_user session user_id of
                        None \<Rightarrow> User_not_found user_id
                      | Some u \<Rightarrow> Item_not_found item_id user_id)), session)"
proof -
  have none: "select_item session item_id user_id = None"
    using assms(2-5) by (rule select_item_other_owner)
  show ?thesis
    using assms(1) none
    by (auto simp: get_item_def patch_item_def delete_item_def split: option.splits)
qed

text \<open>The statement at the sample data.\<close>

theorem item_of_other_user_not_found_witness:
  "(User_is_admin user_7 \<or> User_id user_7 = 7) \<and> pk_unique sample_session
   \<and> walk_dog \<in> set (items sample_session) \<and> Item_id walk_dog = 1 \<and> Item_user_id walk_dog \<noteq> 7
   \<and> get_item 7 1 user_7 sample_session
       = (Inl (HTTPException HTTP_404_NOT_FOUND (Item_not_found 1 7)), sample_session)
   \<and> patch_item 7 1 sample_session user_7 clear_title
       = (Inl (HTTPException HTTP_404_NOT_FOUND (Item_not_found 1 7)), sample_session)
   \<and> delete_item 7 1 user_7 sample_session
       = (Inl (HTTPException HTTP_404_NOT_FOUND (Item_not_found 1 7)), sample_session)"
proof -
  have a7: "User_is_admin user_7 \<or> User_id user_7 = 7" by (simp add: user_7_def)
  have pk: "pk_unique sample_session" by (simp add: pk_unique_def sample_defs)
  have row: "walk_dog \<in> set (items sample_session)" by (simp add: sample_session_def)
  have k: "Item_id walk_dog = 1" and o: "Item_user_id walk_dog \<noteq> 7"
    by (simp_all add: walk_dog_def)
  have u7: "session_get_user sample_session 7 = Some user_7"
    by (simp add: session_get_user_def sample_defs)
  show ?thesis
    using a7 pk row k o item_of_other_user_not_found [OF a7 pk row k o, of clear_title]
    by (simp add: u7)
qed

text \<open>
  Claim C6. An authorized \<open>create_item\<close> for a \<open>user_id\<close> that no user has raises 404
  and returns the session unchanged: no row is added.
\<close>

theorem create_item_unknown_user_not_found:
  assumes "User_is_admin current_user \<or> User_id current_user = user_id"
    and "session_get_user session user_id = None"
  shows "create_item user_id current_user session item
           = (Inl (HTTPException HTTP_404_NOT_FOUND (User_not_found user_id)), session)"
  using assms by (auto simp: create_item_def)

text \<open>The statement at the sample data.\<close>

theorem create_item_unknown_user_not_found_witness:
  "(User_is_admin admin_1 \<or> User_id admin_1 = 9) \<and> session_get_user sample_session 9 = None
   \<and> create_item 9 admin_1 sample_session buy_milk
       = (Inl (HTTPException HTTP_404_NOT_FOUND (User_not_found 9)), sample_session)"
proof -
  have a: "User_is_admin admin_1 \<or> User_id admin_1 = 9" by (simp add: admin_1_def)
  have u: "session_get_user sample_session 9 = None"
    by (simp add: session_get_user_def sample_defs)
  show ?thesis
    using a u create_item_unknown_user_not_found [OF a u, of buy_milk] by simp
qed

text \<open>
  Claim C7. When \<open>create_item\<close> succeeds, on a session whose key sequence is ahead of
  the keys in the table, \<open>get_item\<close> by any authorized caller for the key of the created
  item, on the session the creation left, returns that item: its title, description and
  done flag are the payload's and its owner is \<open>user_id\<close>.
\<close>

theorem create_item_then_get_item:
  assumes "create_item user_id current_user session item = (Inr response, session')"
    and "seq_ahead session"
    and "User_is_admin reader \<or> User_id reader = user_id"
  shows "\<exists>created.
           response = JSONResponse HTTP_201_CREATED
                        (Content_item ''Item created successfully!'' created)
         \<and> get_item user_id (Item_id created) reader session'
             = (Inr (JSONResponse HTTP_200_OK
                      (Content_item ''Item retrieved successfully!'' created)), session')
         \<and> Item_title created = ItemBase_title item
         \<and> Item_description created = ItemBase_description item
         \<and> Item_done created = ItemBase_done item
         \<and> Item_user_id created = user_id"
proof -
  from assms(1) obtain user_db where
    user: "session_get_user session user_id = Some user_db"
    by (auto simp: create_item_def split: if_splits option.splits)
  have uid: "User_id user_db = user_id"
    using user by (rule session_get_user_id)
  let ?new = "\<lparr>Item_id = item_seq session, Item_title = ItemBase_title item,
               Item_description = ItemBase_description item, Item_done = ItemBase_done item,
               Item_user_id = user_id\<rparr>"
  let ?s = "session\<lparr>items := items session @ [?new], item_seq := item_seq session + 1\<rparr>"
  from assms(1) user uid have resp: "response = JSONResponse HTTP_201_CREATED
                        (Content_item ''Item created successfully!'' ?new)"
    and sess: "session' = ?s"
    by (auto simp: create_item_def session_add_new_def Let_def split: if_splits)
  have u': "session_get_user ?s user_id = Some user_db"
    using user by (simp add: session_get_user_def)
  have "select_item ?s (item_seq session) user_id = Some ?new"
    using seq_ahead_fresh [OF assms(2), of user_id]
    by (simp add: select_item_def find_append)
  with u' assms(3) have "get_item user_id (Item_id ?new) reader ?s
             = (Inr (JSONResponse HTTP_200_OK
                      (Content_item ''Item retrieved successfully!'' ?new)), ?s)"
    by (auto simp: get_item_def)
  with resp sess show ?thesis by simp
qed

text \<open>The statement at the sample data.\<close>

theorem create_item_then_get_item_witness:
  "create_item 5 admin_1 sample_session buy_milk
     = (Inr (JSONResponse HTTP_201_CREATED
              (Content_item ''Item created successfully!''
                 \<lparr>Item_id = 2, Item_title = ''Buy milk'', Item_description = ''2%'',
                  Item_done = False, Item_user_id = 5\<rparr>)),
        sample_session\<lparr>items := [walk_dog,
                 \<lparr>Item_id = 2, Item_title = ''Buy milk'', Item_description = ''2%'',
                  Item_done = False, Item_user_id = 5\<rparr>], item_seq := 3\<rparr>)
   \<and> seq_ahead sample_session
   \<and> (User_is_admin user_5 \<or> User_id user_5 = 5)
   \<and> get_item 5 2 user_5
         (sample_session\<lparr>items := [walk_dog,
                 \<lparr>Item_id = 2, Item_title = ''Buy milk'', Item_description = ''2%'',
                  Item_done = False, Item_user_id = 5\<rparr>], item_seq := 3\<rparr>)
       = (Inr (JSONResponse HTTP_200_OK
                (Content_item ''Item retrieved successfully!''
                   \<lparr>Item_id = 2, Item_title = ''Buy milk'', Item_description = ''2%'',
                    Item_done = False, Item_user_id = 5\<rparr>)),
          sample_session\<lparr>items := [walk_dog,
                 \<lparr>Item_id = 2, Item_title = ''Buy milk'', Item_description = ''2%'',
                  Item_done = False, Item_user_id = 5\<rparr>], item_seq := 3\<rparr>)"
proof -
  have c: "create_item 5 admin_1 sample_session buy_milk
     = (Inr (JSONResponse HTTP_201_CREATED
              (Content_item ''Item created successfully!''
                 \<lparr>Item_id = 2, Item_title = ''Buy milk'', Item_description = ''2%'',
                  Item_done = False, Item_user_id = 5\<rparr>)),
        sample_session\<lparr>items := [walk_dog,
                 \<lparr>Item_id = 2, Item_title = ''Buy milk'', Item_description = ''2%'',
                  Item_done = False, Item_user_id = 5\<rparr>], item_seq := 3\<rparr>)"
    by (simp add: create_item_def session_get_user_def session_add_new_def Let_def sample_defs)
  have q: "seq_ahead sample_session" by (simp add: seq_ahead_def sample_defs)
  have a5: "User_is_admin user_5 \<or> User_id user_5 = 5" by (simp add: user_5_def)
  show ?thesis
    using c q a5 create_item_then_get_item [OF c q a5] by auto
qed

text \<open>
  Claim C8. When \<open>delete_item\<close> succeeds, \<open>get_item\<close> by any authorized caller with the
  same \<open>user_id\<close> and \<open>item_id\<close>, on the session the deletion left, raises 404 for the
  item.
\<close>

theorem delete_item_then_get_item:
  assumes "delete_item user_id item_id current_user session = (Inr response, session')"
    and "User_is_admin reader \<or> User_id reader = user_id"
  shows "get_item user_id item_id reader session'
           = (Inl (HTTPException HTTP_404_NOT_FOUND (Item_not_found item_id user_id)), session')"
proof -
  from assms(1) obtain user_db found where
    user: "session_get_user session user_id = Some user_db"
    and found: "select_item session item_id user_id = Some found"
    and sess: "session' = session_delete session found"
    by (auto simp: delete_item_def split: if_splits option.splits)
  have fid: "Item_id found = item_id"
    using select_item_keys [OF found] by simp
  have u': "session_get_user session' user_id = Some user_db"
    using user sess by (simp add: session_get_user_def session_delete_def)
  have "select_item session' item_id user_id = None"
    using sess fid by (auto simp: select_item_def session_delete_def find_None_iff)
  with u' assms(2) show ?thesis
    by (auto simp: get_item_def)
qed

text \<open>The statement at the sample data.\<close>

theorem delete_item_then_get_item_witness:
  "delete_item 5 1 user_5 sample_session
     = (Inr (JSONResponse HTTP_200_OK (Content_message ''Item deleted successfully!'')),
        sample_session\<lparr>items := []\<rparr>)
   \<and> (User_is_admin admin_1 \<or> User_id admin_1 = 5)
   \<and> get_item 5 1 admin_1 (sample_session\<lparr>items := []\<rparr>)
       = (Inl (HTTPException HTTP_404_NOT_FOUND (Item_not_found 1 5)),
          sample_session\<lparr>items := []\<rparr>)"
proof -
  have d: "delete_item 5 1 user_5 sample_session
     = (Inr (JSONResponse HTTP_200_OK (Content_message ''Item deleted successfully!'')),
        sample_session\<lparr>items := []\<rparr>)"
    by (simp add: delete_item_def session_get_user_def select_item_def session_delete_def
        sample_defs)
  have a: "User_is_admin admin_1 \<or> User_id admin_1 = 5" by (simp add: admin_1_def)
  show ?thesis
    using d a delete_item_then_get_item [OF d a] by simp
qed

text \<open>
  Claim C9. No handler changes the \<open>id\<close> or the \<open>user_id\<close> of a row: \<open>create_item\<close> keeps
  the table as a prefix of the new one, the three reading handlers return the session
  they were given, \<open>patch_item\<close> keeps the column of ids and the column of owners as they
  are, row by row, and \<open>delete_item\<close> leaves a subsequence of the rows, each as it was.
\<close>

theorem item_keys_never_changed:
  "prefix (items session) (items (snd (create_item user_id current_user session item)))
   \<and> snd (get_items current_user session offset limit) = session
   \<and> snd (get_user_items user_id current_user session offset limit) = session
   \<and> snd (get_item user_id item_id current_user session) = session
   \<and> map Item_id (items (snd (patch_item user_id item_id session current_user upd)))
       = map Item_id (items session)
   \<and> map Item_user_id (items (snd (patch_item user_id item_id session current_user upd)))
       = map Item_user_id (items session)
   \<and> subseq (items (snd (delete_item user_id item_id current_user session))) (items session)"
proof (intro conjI)
  show "prefix (items session) (items (snd (create_item user_id current_user session item)))"
    by (simp add: create_item_def session_add_new_def Let_def split: option.splits)
  show "snd (get_items current_user session offset limit) = session"
    by (simp add: get_items_def Let_def)
  show "snd (get_user_items user_id current_user session offset limit) = session"
    by (simp add: get_user_items_def split: option.splits)
  show "snd (get_item user_id item_id current_user session) = session"
    by (simp add: get_item_def split: option.splits)
  show "map Item_id (items (snd (patch_item user_id item_id session current_user upd)))
       = map Item_id (items session)"
    using patch_item_session [of user_id item_id session current_user upd]
    by (auto simp: session_update_ids merge_update_keys)
  show "map Item_user_id (items (snd (patch_item user_id item_id session current_user upd)))
       = map Item_user_id (items session)"
    using patch_item_session [of user_id item_id session current_user upd]
    by (auto simp: session_update_owners merge_update_keys)
  show "subseq (items (snd (delete_item user_id item_id current_user session))) (items session)"
    by (simp add: delete_item_def session_delete_def split: option.splits)
qed

text \<open>The statement at the sample data.\<close>

theorem item_keys_never_changed_witness:
  "map Item_id (items (snd (patch_item 5 1 sample_session user_5 clear_title)))
     = map Item_id (items sample_session)
   \<and> map Item_user_id (items (snd (patch_item 5 1 sample_session user_5 clear_title)))
     = map Item_user_id (items sample_session)
   \<and> prefix (items sample_session) (items (snd (create_item 5 admin_1 sample_session buy_milk)))
   \<and> subseq (items (snd (delete_item 5 1 user_5 sample_session))) (items sample_session)"
  using item_keys_never_changed [of sample_session 5 admin_1 buy_milk]
    item_keys_never_changed [of sample_session 5 user_5 _ _ _ 1 clear_title]
  by simp

text \<open>
  Claim C10. A caller who is neither an admin nor the user \<open>user_id\<close> gets 403 from each
  of the five handlers scoped to a \<open>user_id\<close>, on every session, so also when the user
  or the item does not exist: the check comes before any lookup, and the session is
  returned untouched.
\<close>

theorem forbidden_before_not_found:
  assumes "\<not> User_is_admin current_user" and "User_id current_user \<noteq> user_id"
  shows "create_item user_id current_user session item
           = (Inl (HTTPException HTTP_403_FORBIDDEN No_rights), session)
       \<and> get_user_items user_id current_user session offset limit
           = (Inl (HTTPException HTTP_403_FORBIDDEN No_rights), session)
       \<and> get_item user_id item_id current_user session
           = (Inl (HTTPException HTTP_403_FORBIDDEN No_rights), session)
       \<and> patch_item user_id item_id session current_user upd
           = (Inl (HTTPException HTTP_403_FORBIDDEN No_rights), session)
       \<and> delete_item user_id item_id current_user session
           = (Inl (HTTPException HTTP_403_FORBIDDEN No_rights), session)"
  using assms
  by (simp add: create_item_def get_user_items_def get_item_def patch_item_def delete_item_def)

text \<open>The statement at the sample data.\<close>

theorem forbidden_before_not_found_witness:
  "\<not> User_is_admin user_7 \<and> User_id user_7 \<noteq> 9
   \<and> session_get_user sample_session 9 = None
   \<and> create_item 9 user_7 sample_session buy_milk
       = (Inl (HTTPException HTTP_403_FORBIDDEN No_rights), sample_session)
   \<and> get_item 9 1 user_7 sample_session
       = (Inl (HTTPException HTTP_403_FORBIDDEN No_rights), sample_session)
   \<and> patch_item 9 1 sample_session user_7 clear_title
       = (Inl (HTTPException HTTP_403_FORBIDDEN No_rights), sample_session)"
proof -
  have n: "\<not> User_is_admin user_7" and o: "User_id user_7 \<noteq> 9" by (simp_all add: user_7_def)
  have u: "session_get_user sample_session 9 = None"
    by (simp add: session_get_user_def sample_defs)
  show ?thesis
    using n o u forbidden_before_not_found [OF n o, of sample_session buy_milk _ _ 1 clear_title] by simp
qed

end
